theory Spec2Isabelle
  imports Main
begin

section \<open>Media file date renamer: the program as HOL functions\<close>

text \<open>
  The program is one Python file with four functions: \<open>get_file_creation_date\<close>,
  \<open>is_media_file\<close>, \<open>already_has_date_prefix\<close> and \<open>rename_media_files\<close>.
  Each is translated below under its own name. What Python's library does for them
  (\<open>str.lower\<close>, \<open>Path.suffix\<close>, \<open>re.match\<close>, \<open>os.stat\<close>, \<open>os.rename\<close>,
  \<open>datetime.fromtimestamp\<close>, \<open>strftime\<close>) is written out as far as the program uses it.

  Conventions of the model:
  \<^item> a Python \<open>str\<close> is a \<open>string\<close>; a \<open>char\<close> stands for the code point of the same
    number, so file names are restricted to code points below 256;
  \<^item> a time stamp is a whole number of seconds since the epoch (the fraction of the
    Python float is left out; only the calendar day is ever printed);
  \<^item> symbolic links are not modelled, and a directory can always be listed.
\<close>

subsection \<open>Strings: \<open>str.lower\<close>, \<open>str.rfind\<close>, \<open>Path.suffix\<close>\<close>

definition lower_char :: "char \<Rightarrow> char" where
  \<comment> \<open>The lower-case mapping of the code points below 256: A-Z and the accented capitals.\<close>
  "lower_char c =
     (let n = (of_char c :: nat)
      in if (65 \<le> n \<and> n \<le> 90) \<or> (192 \<le> n \<and> n \<le> 222 \<and> n \<noteq> 215)
         then char_of (n + 32) else c)"

definition lower :: "string \<Rightarrow> string" where
  "lower s = map lower_char s"

fun rfind :: "string \<Rightarrow> char \<Rightarrow> int" where
  \<comment> \<open>\<open>s.rfind(c)\<close>: the highest index of \<open>c\<close> in \<open>s\<close>, or -1.\<close>
  "rfind [] c = - 1"
| "rfind (x # xs) c =
     (let r = rfind xs c
      in if 0 \<le> r then r + 1 else if x = c then 0 else - 1)"

definition path_suffix :: "string \<Rightarrow> string" where
  \<comment> \<open>\<open>Path(name).suffix\<close> for a name without separators, as \<open>os.listdir\<close> returns them:
      \<open>i = name.rfind('.')\<close>; \<open>name[i:]\<close> if \<open>0 < i < len(name) - 1\<close>, else the empty string.\<close>
  "path_suffix name =
     (let i = rfind name (CHR ''.'')
      in if 0 < i \<and> i < int (length name) - 1 then drop (nat i) name else [])"

definition media_extensions :: "string list" where
  "media_extensions =
     [''.jpg'', ''.jpeg'', ''.png'', ''.gif'', ''.bmp'', ''.tiff'', ''.tif'',
      ''.webp'', ''.svg'', ''.raw'', ''.cr2'', ''.nef'', ''.arw'', ''.dng'',
      ''.mp4'', ''.avi'', ''.mov'', ''.wmv'', ''.flv'', ''.webm'', ''.mkv'',
      ''.m4v'', ''.3gp'', ''.mpg'', ''.mpeg'', ''.m2v'', ''.mts'']"

definition is_media_file :: "string \<Rightarrow> bool" where
  "is_media_file file_path = (lower (path_suffix file_path) \<in> set media_extensions)"

subsection \<open>The date-prefix pattern: \<open>re.match\<close>\<close>

definition is_digit :: "char \<Rightarrow> bool" where
  \<comment> \<open>\<open>\d\<close>: below code point 256 the decimal digits are 0-9.\<close>
  "is_digit c = (c \<in> set ''0123456789'')"

definition is_space :: "char \<Rightarrow> bool" where
  \<comment> \<open>\<open>\s\<close> on a \<open>str\<close>: the white space of Unicode below code point 256.\<close>
  "is_space c = ((of_char c :: nat) \<in> set [9, 10, 11, 12, 13, 28, 29, 30, 31, 32, 133, 160])"

datatype char_class = Digit | Whitespace | Literal char

datatype token = Exactly nat char_class | OneOrMore char_class

fun in_class :: "char_class \<Rightarrow> char \<Rightarrow> bool" where
  "in_class Digit c = is_digit c"
| "in_class Whitespace c = is_space c"
| "in_class (Literal l) c = (c = l)"

fun match_exactly :: "nat \<Rightarrow> char_class \<Rightarrow> string \<Rightarrow> string option" where
  \<comment> \<open>\<open>x{n}\<close>: the rest of the string after exactly \<open>n\<close> characters of the class.\<close>
  "match_exactly 0 cl s = Some s"
| "match_exactly (Suc n) cl [] = None"
| "match_exactly (Suc n) cl (c # s) = (if in_class cl c then match_exactly n cl s else None)"

fun re_match :: "token list \<Rightarrow> string \<Rightarrow> bool" where
  \<comment> \<open>\<open>re.match\<close>: does the pattern match at the start of the string? \<open>x+\<close> may stop
      after any positive number of the leading characters of its class.\<close>
  "re_match [] s = True"
| "re_match (Exactly n cl # ts) s =
     (case match_exactly n cl s of None \<Rightarrow> False | Some rest \<Rightarrow> re_match ts rest)"
| "re_match (OneOrMore cl # ts) s =
     list_ex (\<lambda>k. re_match ts (drop k s)) [1 ..< Suc (length (takeWhile (in_class cl) s))]"

definition date_prefix_pattern :: "token list" where
  \<comment> \<open>\<open>^\d{4}-\d{2}-\d{2}\s+\<close>\<close>
  "date_prefix_pattern =
     [Exactly 4 Digit, Exactly 1 (Literal (CHR ''-'')), Exactly 2 Digit,
      Exactly 1 (Literal (CHR ''-'')), Exactly 2 Digit, OneOrMore Whitespace]"

definition already_has_date_prefix :: "string \<Rightarrow> bool" where
  "already_has_date_prefix filename = re_match date_prefix_pattern filename"

fun spec_date_prefix :: "string \<Rightarrow> bool" where
  \<comment> \<open>The pattern in the words of the specification: four digits, hyphen, two digits,
      hyphen, two digits, then at least one whitespace character.\<close>
  "spec_date_prefix (y1 # y2 # y3 # y4 # h1 # m1 # m2 # h2 # d1 # d2 # w # rest) =
     (is_digit y1 \<and> is_digit y2 \<and> is_digit y3 \<and> is_digit y4 \<and> h1 = CHR ''-'' \<and>
      is_digit m1 \<and> is_digit m2 \<and> h2 = CHR ''-'' \<and> is_digit d1 \<and> is_digit d2 \<and> is_space w)"
| "spec_date_prefix _ = False"

subsection \<open>Time stamps and dates\<close>

type_synonym timestamp = int

record stat_result =
  st_birthtime :: "timestamp option"  \<comment> \<open>\<open>None\<close>: the attribute is absent on this platform\<close>
  st_ctime :: "timestamp option"
  st_mtime :: timestamp

record datetime =
  year :: int
  month :: int
  day :: int
  hour :: int
  minute :: int
  second :: int

datatype exn = FileNotFoundError | PermissionError | IsADirectoryError | OSError | ValueError

definition py_min :: "timestamp \<Rightarrow> timestamp \<Rightarrow> timestamp" where
  \<comment> \<open>Python's \<open>min(a, b)\<close>: the first argument unless the second is smaller.\<close>
  "py_min a b = (if b < a then b else a)"

definition civil_from_days :: "int \<Rightarrow> int \<times> int \<times> int" where
  \<comment> \<open>Year, month and day of the proleptic Gregorian calendar, from the number of days
      since 1970-01-01.\<close>
  "civil_from_days n =
     (let z = n + 719468;
          era = z div 146097;
          doe = z mod 146097;
          yoe = (doe - doe div 1460 + doe div 36524 - doe div 146096) div 365;
          doy = doe - (365 * yoe + yoe div 4 - yoe div 100);
          mp = (5 * doy + 2) div 153;
          d = doy - (153 * mp + 2) div 5 + 1;
          m = (if mp < 10 then mp + 3 else mp - 9);
          y = yoe + era * 400 + (if m \<le> 2 then 1 else 0)
      in (y, m, d))"

definition fromtimestamp :: "(timestamp \<Rightarrow> int) \<Rightarrow> timestamp \<Rightarrow> exn + datetime" where
  \<comment> \<open>\<open>datetime.fromtimestamp\<close>: local time, with the offset of the local zone from UTC at
      that instant; a year outside 1..9999 raises.\<close>
  "fromtimestamp utcoffset t =
     (let local = t + utcoffset t;
          sod = local mod 86400
      in case civil_from_days (local div 86400) of
           (y, m, d) \<Rightarrow>
             if y < 1 \<or> 9999 < y then Inl ValueError
             else Inr \<lparr>year = y, month = m, day = d, hour = sod div 3600,
                       minute = sod mod 3600 div 60, second = sod mod 60\<rparr>)"

definition digit_char :: "int \<Rightarrow> char" where
  "digit_char n = ''0123456789'' ! nat (n mod 10)"

definition strftime_Y_m_d :: "datetime \<Rightarrow> string" where
  \<comment> \<open>\<open>strftime('%Y-%m-%d')\<close>: the year on four digits, month and day on two.\<close>
  "strftime_Y_m_d dt =
     [digit_char (year dt div 1000), digit_char (year dt div 100),
      digit_char (year dt div 10), digit_char (year dt), CHR ''-'',
      digit_char (month dt div 10), digit_char (month dt), CHR ''-'',
      digit_char (day dt div 10), digit_char (day dt)]"

subsection \<open>The file system\<close>

text \<open>
  A directory is the list of its entries in the order \<open>os.listdir\<close> returns them; a file
  system maps the path of a directory to its contents. A path inside a directory is the
  pair of the directory's path and the entry's name (\<open>os.path.join\<close>).
\<close>

datatype file_kind = Regular | Directory | Other

record entry =
  kind :: file_kind
  stat :: stat_result

type_synonym directory = "(string \<times> entry) list"

type_synonym filesystem = "string \<rightharpoonup> directory"

type_synonym path = "string \<times> string"

record environment =
  utcoffset :: "timestamp \<Rightarrow> int"  \<comment> \<open>the local time zone\<close>
  stat_fault :: "path \<Rightarrow> exn option"  \<comment> \<open>\<open>os.stat\<close> raises on this path (a file that vanished, an I/O error)\<close>
  rename_fault :: "path \<Rightarrow> path \<Rightarrow> exn option"  \<comment> \<open>\<open>os.rename\<close> raises (permissions, a file in use)\<close>

definition os_path_join :: "string \<Rightarrow> string \<Rightarrow> path" where
  "os_path_join directory_path filename = (directory_path, filename)"

definition lookup :: "filesystem \<Rightarrow> path \<Rightarrow> entry option" where
  "lookup fsys p = (case fsys (fst p) of None \<Rightarrow> None | Some dir \<Rightarrow> map_of dir (snd p))"

definition os_path_isdir :: "filesystem \<Rightarrow> string \<Rightarrow> bool" where
  "os_path_isdir fsys directory_path = (fsys directory_path \<noteq> None)"

definition os_listdir :: "filesystem \<Rightarrow> string \<Rightarrow> string list" where
  \<comment> \<open>Only called on a path that \<open>os_path_isdir\<close> accepted.\<close>
  "os_listdir fsys directory_path =
     (case fsys directory_path of None \<Rightarrow> [] | Some dir \<Rightarrow> map fst dir)"

definition os_path_isfile :: "filesystem \<Rightarrow> path \<Rightarrow> bool" where
  "os_path_isfile fsys p = (case lookup fsys p of None \<Rightarrow> False | Some e \<Rightarrow> kind e = Regular)"

definition os_path_exists :: "filesystem \<Rightarrow> path \<Rightarrow> bool" where
  "os_path_exists fsys p = (lookup fsys p \<noteq> None)"

definition os_stat :: "environment \<Rightarrow> filesystem \<Rightarrow> path \<Rightarrow> exn + stat_result" where
  "os_stat env fsys p =
     (case stat_fault env p of
        Some e \<Rightarrow> Inl e
      | None \<Rightarrow> (case lookup fsys p of None \<Rightarrow> Inl FileNotFoundError | Some e \<Rightarrow> Inr (stat e)))"

definition remove_entry :: "string \<Rightarrow> directory \<Rightarrow> directory" where
  "remove_entry name dir = filter (\<lambda>e. fst e \<noteq> name) dir"

definition os_rename :: "environment \<Rightarrow> filesystem \<Rightarrow> path \<Rightarrow> path \<Rightarrow> exn + filesystem" where
  \<comment> \<open>\<open>os.rename(src, dst)\<close> as POSIX has it: the entry moves to its new name, and takes
      the place of a file that has that name.\<close>
  "os_rename env fsys src dst =
     (case rename_fault env src dst of
        Some e \<Rightarrow> Inl e
      | None \<Rightarrow>
         (case (fsys (fst src), fsys (fst dst)) of
            (Some dir1, Some dir2) \<Rightarrow>
              (case map_of dir1 (snd src) of
                 None \<Rightarrow> Inl FileNotFoundError
               | Some e \<Rightarrow>
                   if src = dst then Inr fsys
                   else if (case map_of dir2 (snd dst) of
                              None \<Rightarrow> False | Some e2 \<Rightarrow> kind e2 = Directory)
                   then Inl IsADirectoryError
                   else
                     (let dir1' = remove_entry (snd src) dir1;
                          dir2' = (if fst dst = fst src then dir1' else dir2)
                      in Inr (fsys(fst src \<mapsto> dir1',
                                   fst dst \<mapsto> remove_entry (snd dst) dir2' @ [(snd dst, e)]))))
          | _ \<Rightarrow> Inl FileNotFoundError))"

subsection \<open>The program\<close>

datatype message =
    DirectoryDoesNotExist string  \<comment> \<open>\<open>Error: Directory '...' does not exist.\<close>\<close>
  | NoFilesFound  \<comment> \<open>\<open>No files found in directory.\<close>\<close>
  | NoMediaFilesFound  \<comment> \<open>\<open>No media files found in directory.\<close>\<close>
  | FoundMediaFiles nat
  | ProcessingFiles bool
  | ErrorGettingDate path exn  \<comment> \<open>\<open>Error getting date for ...\<close>\<close>
  | SKIP string
  | CouldNotGetDate string  \<comment> \<open>\<open>ERROR: Could not get date for ...\<close>\<close>
  | AlreadyExists string string  \<comment> \<open>\<open>ERROR: ... already exists, skipping ...\<close>\<close>
  | WOULD_RENAME string string
  | RENAMED string string
  | FailedToRename string exn  \<comment> \<open>\<open>ERROR: Failed to rename ...\<close>\<close>
  | SummaryHeader bool
  | TotalMediaFiles nat
  | SuccessfullyRenamed nat
  | SkippedAlreadyHasDate nat
  | Errors nat

definition get_file_creation_date ::
  "environment \<Rightarrow> filesystem \<Rightarrow> path \<Rightarrow> message list \<times> datetime option" where
  \<comment> \<open>Returns what it prints and its result; \<open>None\<close> is Python's \<open>None\<close>.\<close>
  "get_file_creation_date env fsys file_path =
     (case os_stat env fsys file_path of
        Inl e \<Rightarrow> ([ErrorGettingDate file_path e], None)
      | Inr st \<Rightarrow>
         (let creation_time =
                (case st_birthtime st of
                   Some b \<Rightarrow> b
                 | None \<Rightarrow> (case st_ctime st of Some c \<Rightarrow> c | None \<Rightarrow> st_mtime st));
              modification_time = st_mtime st;
              earliest_time = py_min creation_time modification_time
          in case fromtimestamp (utcoffset env) earliest_time of
               Inl e \<Rightarrow> ([ErrorGettingDate file_path e], None)
             | Inr dt \<Rightarrow> ([], Some dt)))"

record loop_state =
  file_system :: filesystem
  printed :: "message list"
  renamed_count :: nat
  skipped_count :: nat
  error_count :: nat

definition process_file ::
  "environment \<Rightarrow> string \<Rightarrow> bool \<Rightarrow> string \<Rightarrow> loop_state \<Rightarrow> loop_state" where
  \<comment> \<open>The body of the \<open>for\<close> loop.\<close>
  "process_file env directory_path dry_run filename s =
     (let file_path = os_path_join directory_path filename
      in if already_has_date_prefix filename
         then s\<lparr>printed := printed s @ [SKIP filename], skipped_count := skipped_count s + 1\<rparr>
         else
           (case get_file_creation_date env (file_system s) file_path of
              (msgs, None) \<Rightarrow>
                s\<lparr>printed := printed s @ msgs @ [CouldNotGetDate filename],
                  error_count := error_count s + 1\<rparr>
            | (msgs, Some creation_date) \<Rightarrow>
                (let date_str = strftime_Y_m_d creation_date;
                     new_filename = date_str @ '' '' @ filename;
                     new_file_path = os_path_join directory_path new_filename
                 in if os_path_exists (file_system s) new_file_path
                    then s\<lparr>printed := printed s @ msgs @ [AlreadyExists new_filename filename],
                           error_count := error_count s + 1\<rparr>
                    else if dry_run
                    then s\<lparr>printed := printed s @ msgs @ [WOULD_RENAME filename new_filename]\<rparr>
                    else
                      (case os_rename env (file_system s) file_path new_file_path of
                         Inr fsys' \<Rightarrow>
                           s\<lparr>file_system := fsys',
                             printed := printed s @ msgs @ [RENAMED filename new_filename],
                             renamed_count := renamed_count s + 1\<rparr>
                       | Inl e \<Rightarrow>
                           s\<lparr>printed := printed s @ msgs @ [FailedToRename filename e],
                             error_count := error_count s + 1\<rparr>))))"

fun process_files ::
  "environment \<Rightarrow> string \<Rightarrow> bool \<Rightarrow> string list \<Rightarrow> loop_state \<Rightarrow> loop_state" where
  \<comment> \<open>\<open>for filename in media_files: ...\<close>\<close>
  "process_files env directory_path dry_run [] s = s"
| "process_files env directory_path dry_run (filename # rest) s =
     process_files env directory_path dry_run rest
       (process_file env directory_path dry_run filename s)"

record run_summary =
  total_media_files :: nat
  renamed :: nat
  skipped :: nat
  errors :: nat

record run_result =
  files_after :: filesystem
  lines_printed :: "message list"
  summary :: "run_summary option"

definition list_files :: "filesystem \<Rightarrow> string \<Rightarrow> string list" where
  \<comment> \<open>\<open>[f for f in os.listdir(d) if os.path.isfile(os.path.join(d, f))]\<close>\<close>
  "list_files fsys directory_path =
     filter (\<lambda>f. os_path_isfile fsys (os_path_join directory_path f))
       (os_listdir fsys directory_path)"

definition list_media_files :: "filesystem \<Rightarrow> string \<Rightarrow> string list" where
  \<comment> \<open>\<open>[f for f in files if is_media_file(f)]\<close>\<close>
  "list_media_files fsys directory_path = filter is_media_file (list_files fsys directory_path)"

definition loop_start :: "filesystem \<Rightarrow> bool \<Rightarrow> string list \<Rightarrow> loop_state" where
  \<comment> \<open>The state before the \<open>for\<close> loop: the two header lines are printed and the counters
      are zero.\<close>
  "loop_start fsys dry_run media_files =
     \<lparr>file_system = fsys,
      printed = [FoundMediaFiles (length media_files), ProcessingFiles dry_run],
      renamed_count = 0, skipped_count = 0, error_count = 0\<rparr>"

definition run_loop ::
  "environment \<Rightarrow> filesystem \<Rightarrow> string \<Rightarrow> bool \<Rightarrow> string list \<Rightarrow> loop_state" where
  \<comment> \<open>The state after the \<open>for\<close> loop.\<close>
  "run_loop env fsys directory_path dry_run media_files =
     process_files env directory_path dry_run media_files
       (loop_start fsys dry_run media_files)"

definition rename_media_files ::
  "environment \<Rightarrow> filesystem \<Rightarrow> string \<Rightarrow> bool \<Rightarrow> run_result" where
  \<comment> \<open>The Python function returns nothing and reports by printing. The model returns the
      file system after the call, the lines printed, and the counters that the summary
      block prints (\<open>None\<close> when the function returns before it prints one).\<close>
  "rename_media_files env fsys directory_path dry_run =
     (if \<not> os_path_isdir fsys directory_path
      then \<lparr>files_after = fsys, lines_printed = [DirectoryDoesNotExist directory_path], summary = None\<rparr>
      else
        (let files = list_files fsys directory_path
         in if files = []
            then \<lparr>files_after = fsys, lines_printed = [NoFilesFound], summary = None\<rparr>
            else
              (let media_files = filter is_media_file files
               in if media_files = []
                  then \<lparr>files_after = fsys, lines_printed = [NoMediaFilesFound], summary = None\<rparr>
                  else
                    (let s = run_loop env fsys directory_path dry_run media_files
                     in \<lparr>files_after = file_system s,
                         lines_printed = printed s @
                           [SummaryHeader dry_run, TotalMediaFiles (length media_files)] @
                           (if \<not> dry_run then [SuccessfullyRenamed (renamed_count s)] else []) @
                           [SkippedAlreadyHasDate (skipped_count s), Errors (error_count s)],
                         summary = Some \<lparr>total_media_files = length media_files,
                           renamed = renamed_count s, skipped = skipped_count s,
                           errors = error_count s\<rparr>\<rparr>))))"

subsection \<open>Reading the printed lines\<close>

text \<open>
  The program reports by printing. These functions read a printed line: the file a
  per-file line is about, and which of the per-file lines report an error, a skip, a
  rename or a planned rename.
\<close>

definition new_name :: "datetime \<Rightarrow> string \<Rightarrow> string" where
  \<comment> \<open>\<open>f"{date_str} {filename}"\<close>\<close>
  "new_name dt filename = strftime_Y_m_d dt @ '' '' @ filename"

fun file_report :: "message \<Rightarrow> string list" where
  \<comment> \<open>The file a per-file line reports on; no file for the other lines.\<close>
  "file_report (SKIP f) = [f]"
| "file_report (CouldNotGetDate f) = [f]"
| "file_report (AlreadyExists n f) = [f]"
| "file_report (WOULD_RENAME f n) = [f]"
| "file_report (RENAMED f n) = [f]"
| "file_report (FailedToRename f e) = [f]"
| "file_report _ = []"

definition reported_files :: "message list \<Rightarrow> string list" where
  "reported_files ms = concat (map file_report ms)"

definition count_lines :: "(message \<Rightarrow> bool) \<Rightarrow> message list \<Rightarrow> nat" where
  "count_lines P ms = length (filter P ms)"

fun is_error_line :: "message \<Rightarrow> bool" where
  "is_error_line (CouldNotGetDate f) = True"
| "is_error_line (AlreadyExists n f) = True"
| "is_error_line (FailedToRename f e) = True"
| "is_error_line _ = False"

fun is_skip_line :: "message \<Rightarrow> bool" where
  "is_skip_line (SKIP f) = True"
| "is_skip_line _ = False"

fun is_renamed_line :: "message \<Rightarrow> bool" where
  "is_renamed_line (RENAMED f n) = True"
| "is_renamed_line _ = False"

fun is_would_rename_line :: "message \<Rightarrow> bool" where
  "is_would_rename_line (WOULD_RENAME f n) = True"
| "is_would_rename_line _ = False"

subsection \<open>The words of the specification\<close>



subsection \<open>Example directories\<close>

text \<open>
  The scenarios of the specification, as concrete file systems: a photo next to a video
  that already carries a date and a text file; a directory with a text file only; a
  photo whose dated name is taken. In \<open>faulty_env\<close> the metadata of \<open>b.jpg\<close> cannot be
  read and \<open>c.jpg\<close> cannot be renamed.
\<close>

definition plain_stat :: "timestamp \<Rightarrow> timestamp \<Rightarrow> stat_result" where
  \<comment> \<open>A platform without birth time: the creation-like time stamp is \<open>st_ctime\<close>.\<close>
  "plain_stat c m = \<lparr>st_birthtime = None, st_ctime = Some c, st_mtime = m\<rparr>"

definition regular_file :: "timestamp \<Rightarrow> timestamp \<Rightarrow> entry" where
  "regular_file c m = \<lparr>kind = Regular, stat = plain_stat c m\<rparr>"

definition utc_env :: environment where
  "utc_env = \<lparr>utcoffset = (\<lambda>t. 0), stat_fault = (\<lambda>p. None), rename_fault = (\<lambda>p q. None)\<rparr>"

definition faulty_env :: environment where
  "faulty_env =
     \<lparr>utcoffset = (\<lambda>t. 0),
      stat_fault = (\<lambda>p. if snd p = ''b.jpg'' then Some PermissionError else None),
      rename_fault = (\<lambda>p q. if snd p = ''c.jpg'' then Some PermissionError else None)\<rparr>"

definition vacation_fs :: filesystem where
  \<comment> \<open>1678838400 is 2023-03-15 00:00:00 UTC; 1700000000 is 2023-11-14.\<close>
  "vacation_fs =
     [''photos'' \<mapsto>
        [(''vacation.jpg'', regular_file 1700000000 1678838400),
         (''2022-01-01 video.mp4'', regular_file 1641000000 1641000000),
         (''notes.txt'', regular_file 1641000000 1641000000)]]"

definition notes_fs :: filesystem where
  "notes_fs = [''photos'' \<mapsto> [(''notes.txt'', regular_file 1641000000 1641000000)]]"

definition collision_fs :: filesystem where
  \<comment> \<open>1714521600 is 2024-05-01 00:00:00 UTC.\<close>
  "collision_fs =
     [''photos'' \<mapsto>
        [(''a.png'', regular_file 1714521600 1714521600),
         (''2024-05-01 a.png'', regular_file 1714521600 1714521600),
         (''b.jpg'', regular_file 1714521600 1714521600),
         (''c.jpg'', regular_file 1714521600 1714521600),
         (''d.jpg'', regular_file 1714521600 1714521600)]]"

section \<open>Properties\<close>

subsection \<open>File names and extensions\<close>


lemma rfind_ge: "- 1 \<le> rfind s c"
  by (induction s) (auto simp: Let_def)

lemma rfind_absent: "c \<notin> set s \<Longrightarrow> rfind s c = - 1"
  by (induction s) (auto simp: Let_def)

lemma rfind_present: "c \<in> set s \<Longrightarrow> 0 \<le> rfind s c"
  by (induction s) (auto simp: Let_def)

lemma rfind_append_Cons: "c \<notin> set ext \<Longrightarrow> rfind (stem @ c # ext) c = int (length stem)"
  by (induction stem) (auto simp: Let_def rfind_absent)

lemma rfind_decomp:
  "0 \<le> rfind s c \<Longrightarrow> \<exists>stem ext. s = stem @ c # ext \<and> c \<notin> set ext"
proof -
  assume "0 \<le> rfind s c"
  then have "c \<in> set s" using rfind_absent [of c s] by force
  then show ?thesis by (metis split_list_last)
qed

lemma path_suffix_split:
  "c = CHR ''.'' \<Longrightarrow> c \<notin> set ext \<Longrightarrow>
   path_suffix (stem @ c # ext) = (if stem \<noteq> [] \<and> ext \<noteq> [] then c # ext else [])"
  by (auto simp: path_suffix_def rfind_append_Cons)

lemma path_suffix_no_dot: "CHR ''.'' \<notin> set s \<Longrightarrow> path_suffix s = []"
  by (simp add: path_suffix_def rfind_absent)

lemma path_suffix_cases:
  "path_suffix s = [] \<or>
   (\<exists>stem ext. s = stem @ CHR ''.'' # ext \<and> stem \<noteq> [] \<and> ext \<noteq> [] \<and>
      CHR ''.'' \<notin> set ext \<and> path_suffix s = CHR ''.'' # ext)"
proof (cases "CHR ''.'' \<in> set s")
  case False
  then show ?thesis by (simp add: path_suffix_no_dot)
next
  case True
  then obtain stem ext where s: "s = stem @ CHR ''.'' # ext" and ext: "CHR ''.'' \<notin> set ext"
    using rfind_decomp [OF rfind_present] by blast
  show ?thesis
    unfolding s using ext by (simp add: path_suffix_split)
qed

lemma empty_not_media: "[] \<notin> set media_extensions"
  by (simp add: media_extensions_def)

lemma is_media_file_suffix: "is_media_file s \<Longrightarrow> path_suffix s \<noteq> []"
  using empty_not_media by (auto simp: is_media_file_def lower_def)

lemma path_suffix_prepend:
  assumes "CHR ''.'' \<notin> set pre" and "path_suffix s \<noteq> []"
  shows "path_suffix (pre @ s) = path_suffix s"
proof -
  from assms(2) path_suffix_cases [of s] obtain stem ext where
    s: "s = stem @ CHR ''.'' # ext" and ne: "stem \<noteq> []" "ext \<noteq> []"
    and ext: "CHR ''.'' \<notin> set ext" and suf: "path_suffix s = CHR ''.'' # ext"
    by blast
  have "path_suffix ((pre @ stem) @ CHR ''.'' # ext) = CHR ''.'' # ext"
    using ne ext by (simp only: path_suffix_split [OF refl ext]) simp
  moreover have "path_suffix (stem @ CHR ''.'' # ext) = CHR ''.'' # ext"
    using ne ext by (simp add: path_suffix_split)
  ultimately show ?thesis unfolding s by simp
qed

lemma is_media_file_prepend:
  "CHR ''.'' \<notin> set pre \<Longrightarrow> is_media_file s \<Longrightarrow> is_media_file (pre @ s)"
  using is_media_file_suffix [of s] by (simp add: is_media_file_def path_suffix_prepend)


subsection \<open>The date-prefix pattern\<close>

text \<open>The pattern of the source and the pattern in the words of the specification agree.\<close>
lemma re_match_one_or_more_last:
  "re_match [OneOrMore cl] s \<longleftrightarrow> (\<exists>c t. s = c # t \<and> in_class cl c)"
  by (cases s) (auto simp: list_ex_iff)

lemma already_has_date_prefix_iff: "already_has_date_prefix s = spec_date_prefix s"
  by (cases s rule: spec_date_prefix.cases)
     (simp_all add: already_has_date_prefix_def date_prefix_pattern_def numeral_eq_Suc
        re_match_one_or_more_last del: re_match.simps(3))

lemma is_digit_digit_char: "is_digit (digit_char n)"
proof -
  have "nat (n mod 10) < length ''0123456789''" by simp
  then have "''0123456789'' ! nat (n mod 10) \<in> set ''0123456789''" by (rule nth_mem)
  then show ?thesis by (simp only: is_digit_def digit_char_def)
qed

lemma is_space_space: "is_space (CHR '' '')"
  by (simp add: is_space_def)

lemma strftime_has_date_prefix: "spec_date_prefix (strftime_Y_m_d dt @ '' '' @ name)"
  by (simp add: strftime_Y_m_d_def is_digit_digit_char is_space_space)

lemma is_digit_not_dot: "is_digit c \<Longrightarrow> c \<noteq> CHR ''.''"
  by (auto simp: is_digit_def)

lemma digit_char_not_dot: "digit_char n \<noteq> CHR ''.''"
  by (rule is_digit_not_dot [OF is_digit_digit_char])

lemma strftime_no_dot: "CHR ''.'' \<notin> set (strftime_Y_m_d dt @ '' '')"
  using digit_char_not_dot [symmetric] by (simp add: strftime_Y_m_d_def)


subsection \<open>The file system calls\<close>

lemma map_of_remove_entry:
  "map_of (remove_entry n dir) k = (if k = n then None else map_of dir k)"
  by (induction dir) (auto simp: remove_entry_def)

lemma map_of_snoc:
  "map_of (dir @ [(n, e)]) k = (case map_of dir k of Some v \<Rightarrow> Some v | None \<Rightarrow> if k = n then Some e else None)"
  by (induction dir) auto

lemma os_rename_Inr:
  assumes "os_rename env fsys (d1, n1) (d2, n2) = Inr fsys'" and "(d1, n1) \<noteq> (d2, n2)"
  obtains dir1 dir2 e where
    "fsys d1 = Some dir1" "fsys d2 = Some dir2" "map_of dir1 n1 = Some e"
    "fsys' = fsys(d1 \<mapsto> remove_entry n1 dir1,
       d2 \<mapsto> remove_entry n2 (if d2 = d1 then remove_entry n1 dir1 else dir2) @ [(n2, e)])"
  using assms unfolding os_rename_def Let_def
  by (simp split: option.splits if_splits)

lemma os_rename_same:
  "os_rename env fsys src src = Inr fsys' \<Longrightarrow> fsys' = fsys"
  unfolding os_rename_def by (simp split: option.splits)

lemma lookup_os_rename:
  assumes "os_rename env fsys src dst = Inr fsys'"
  shows "lookup fsys' p =
     (if src = dst then lookup fsys p
      else if p = dst then lookup fsys src
      else if p = src then None
      else lookup fsys p)"
proof (cases "src = dst")
  case True
  with assms have "fsys' = fsys" by (auto dest: os_rename_same)
  with True show ?thesis by simp
next
  case False
  obtain d1 n1 d2 n2 d n where [simp]: "src = (d1, n1)" "dst = (d2, n2)" "p = (d, n)"
    by (cases src, cases dst, cases p)
  from assms False obtain dir1 dir2 e where
    *: "fsys d1 = Some dir1" "fsys d2 = Some dir2" "map_of dir1 n1 = Some e"
    and fsys': "fsys' = fsys(d1 \<mapsto> remove_entry n1 dir1,
       d2 \<mapsto> remove_entry n2 (if d2 = d1 then remove_entry n1 dir1 else dir2) @ [(n2, e)])"
    by (auto elim: os_rename_Inr)
  show ?thesis
    using False * unfolding fsys' lookup_def
    by (auto simp: map_of_remove_entry map_of_snoc simp del: map_of_append
          split: option.splits)
qed

lemma os_rename_other_directory:
  assumes "os_rename env fsys src dst = Inr fsys'" and "d \<noteq> fst src" and "d \<noteq> fst dst"
  shows "fsys' d = fsys d"
  using assms
  by (auto simp: os_rename_def Let_def split: option.splits if_splits)

lemma os_rename_isdir:
  assumes "os_rename env fsys src dst = Inr fsys'"
  shows "os_path_isdir fsys' d = os_path_isdir fsys d"
  using assms
  by (auto simp: os_rename_def os_path_isdir_def Let_def split: option.splits if_splits)

subsection \<open>One pass of the loop body\<close>

text \<open>The six ways through the body of the loop, as a case rule.\<close>

lemma process_file_cases [case_names skip no_date exists would_rename renamed rename_failed]:
  fixes env d dry f s
  defines "s' \<equiv> process_file env d dry f s"
  obtains
    "already_has_date_prefix f"
    "s' = s\<lparr>printed := printed s @ [SKIP f], skipped_count := skipped_count s + 1\<rparr>"
  | msgs where "\<not> already_has_date_prefix f"
    "get_file_creation_date env (file_system s) (d, f) = (msgs, None)"
    "s' = s\<lparr>printed := printed s @ msgs @ [CouldNotGetDate f], error_count := error_count s + 1\<rparr>"
  | msgs dt where "\<not> already_has_date_prefix f"
    "get_file_creation_date env (file_system s) (d, f) = (msgs, Some dt)"
    "os_path_exists (file_system s) (d, new_name dt f)"
    "s' = s\<lparr>printed := printed s @ msgs @ [AlreadyExists (new_name dt f) f],
            error_count := error_count s + 1\<rparr>"
  | msgs dt where "\<not> already_has_date_prefix f"
    "get_file_creation_date env (file_system s) (d, f) = (msgs, Some dt)"
    "\<not> os_path_exists (file_system s) (d, new_name dt f)" "dry"
    "s' = s\<lparr>printed := printed s @ msgs @ [WOULD_RENAME f (new_name dt f)]\<rparr>"
  | msgs dt fsys' where "\<not> already_has_date_prefix f"
    "get_file_creation_date env (file_system s) (d, f) = (msgs, Some dt)"
    "\<not> os_path_exists (file_system s) (d, new_name dt f)" "\<not> dry"
    "os_rename env (file_system s) (d, f) (d, new_name dt f) = Inr fsys'"
    "s' = s\<lparr>file_system := fsys', printed := printed s @ msgs @ [RENAMED f (new_name dt f)],
            renamed_count := renamed_count s + 1\<rparr>"
  | msgs dt e where "\<not> already_has_date_prefix f"
    "get_file_creation_date env (file_system s) (d, f) = (msgs, Some dt)"
    "\<not> os_path_exists (file_system s) (d, new_name dt f)" "\<not> dry"
    "os_rename env (file_system s) (d, f) (d, new_name dt f) = Inl e"
    "s' = s\<lparr>printed := printed s @ msgs @ [FailedToRename f e],
            error_count := error_count s + 1\<rparr>"
proof -
  obtain msgs r where g: "get_file_creation_date env (file_system s) (d, f) = (msgs, r)"
    by (cases "get_file_creation_date env (file_system s) (d, f)")
  note defs = s'_def process_file_def new_name_def os_path_join_def Let_def
  show thesis
  proof (cases "already_has_date_prefix f")
    case True
    then show ?thesis using that(1) by (simp add: defs)
  next
    case np: False
    show ?thesis
    proof (cases r)
      case None
      then show ?thesis using that(2) [of msgs] np g by (simp add: defs)
    next
      case (Some dt)
      show ?thesis
      proof (cases "os_path_exists (file_system s) (d, new_name dt f)")
        case True
        then show ?thesis using that(3) [of msgs dt] np g Some by (simp add: defs)
      next
        case ne: False
        show ?thesis
        proof (cases dry)
          case True
          then show ?thesis using that(4) [of msgs dt] np g Some ne by (simp add: defs)
        next
          case nd: False
          show ?thesis
          proof (cases "os_rename env (file_system s) (d, f) (d, new_name dt f)")
            case (Inl e)
            then show ?thesis using that(6) [of msgs dt e] np g Some ne nd by (simp add: defs)
          next
            case (Inr fsys')
            then show ?thesis using that(5) [of msgs dt fsys'] np g Some ne nd by (simp add: defs)
          qed
        qed
      qed
    qed
  qed
qed

lemma new_name_has_date_prefix: "already_has_date_prefix (new_name dt f)"
  by (simp only: already_has_date_prefix_iff new_name_def strftime_has_date_prefix)

lemma new_name_neq: "new_name dt f \<noteq> f"
proof
  assume "new_name dt f = f"
  then have "length (new_name dt f) = length f" by simp
  then show False by (simp add: new_name_def strftime_Y_m_d_def)
qed

lemma new_name_is_media: "is_media_file f \<Longrightarrow> is_media_file (new_name dt f)"
  using is_media_file_prepend [OF strftime_no_dot, of f dt] by (simp add: new_name_def)

lemma get_file_creation_date_msgs:
  assumes "get_file_creation_date env fsys p = (msgs, r)"
  shows "reported_files msgs = []" and "count_lines is_error_line msgs = 0"
    and "count_lines is_skip_line msgs = 0" and "count_lines is_renamed_line msgs = 0"
    and "count_lines is_would_rename_line msgs = 0"
  using assms
  by (auto simp: get_file_creation_date_def Let_def reported_files_def count_lines_def
        split: sum.splits)

lemma reported_files_append [simp]:
  "reported_files (xs @ ys) = reported_files xs @ reported_files ys"
  by (simp add: reported_files_def)

lemma count_lines_append [simp]:
  "count_lines P (xs @ ys) = count_lines P xs + count_lines P ys"
  by (simp add: count_lines_def)

lemma process_file_dry_run:
  "file_system (process_file env d True f s) = file_system s"
  by (rule process_file_cases [where env = env and d = d and dry = True and f = f and s = s])
     simp_all

lemma process_file_lookup:
  "lookup (file_system (process_file env d dry f s)) p = lookup (file_system s) p \<or>
   (\<not> dry \<and> \<not> already_has_date_prefix f \<and>
     (p = (d, f) \<or> (\<exists>dt. p = (d, new_name dt f) \<and> lookup (file_system s) p = None)))"
proof (rule process_file_cases [where env = env and d = d and dry = dry and f = f and s = s])
  fix msgs dt fsys'
  assume np: "\<not> already_has_date_prefix f"
    and ne: "\<not> os_path_exists (file_system s) (d, new_name dt f)"
    and nd: "\<not> dry"
    and rn: "os_rename env (file_system s) (d, f) (d, new_name dt f) = Inr fsys'"
    and s': "process_file env d dry f s =
       s\<lparr>file_system := fsys', printed := printed s @ msgs @ [RENAMED f (new_name dt f)],
         renamed_count := renamed_count s + 1\<rparr>"
  from ne have "lookup (file_system s) (d, new_name dt f) = None"
    by (simp add: os_path_exists_def)
  then show ?thesis
    using np nd new_name_neq [of dt f] unfolding s'
    by (auto simp: lookup_os_rename [OF rn])
qed simp_all

lemma process_file_other_directory:
  "d' \<noteq> d \<Longrightarrow> file_system (process_file env d dry f s) d' = file_system s d'"
  by (rule process_file_cases [where env = env and d = d and dry = dry and f = f and s = s])
     (simp_all add: os_rename_other_directory)

lemma process_file_isdir:
  "os_path_isdir (file_system (process_file env d dry f s)) d' = os_path_isdir (file_system s) d'"
  by (rule process_file_cases [where env = env and d = d and dry = dry and f = f and s = s])
     (simp_all add: os_rename_isdir)

lemma process_file_reports:
  "reported_files (printed (process_file env d dry f s)) = reported_files (printed s) @ [f]"
  by (rule process_file_cases [where env = env and d = d and dry = dry and f = f and s = s])
     (simp_all add: get_file_creation_date_msgs, simp_all add: reported_files_def)

lemma process_file_counts:
  fixes env d dry f s
  defines "s' \<equiv> process_file env d dry f s"
  assumes "error_count s = count_lines is_error_line (printed s)"
    and "skipped_count s = count_lines is_skip_line (printed s)"
    and "renamed_count s = count_lines is_renamed_line (printed s)"
  shows "error_count s' = count_lines is_error_line (printed s')"
    and "skipped_count s' = count_lines is_skip_line (printed s')"
    and "renamed_count s' = count_lines is_renamed_line (printed s')"
  unfolding s'_def
  by (rule process_file_cases [where env = env and d = d and dry = dry and f = f and s = s];
      simp add: assms get_file_creation_date_msgs; simp add: count_lines_def)+

lemma process_file_total:
  fixes env d dry f s
  defines "s' \<equiv> process_file env d dry f s"
  shows "renamed_count s' + skipped_count s' + error_count s' +
           count_lines is_would_rename_line (printed s') =
         renamed_count s + skipped_count s + error_count s +
           count_lines is_would_rename_line (printed s) + 1"
  unfolding s'_def
  by (rule process_file_cases [where env = env and d = d and dry = dry and f = f and s = s];
      simp add: get_file_creation_date_msgs; simp add: count_lines_def)

lemma process_file_one_counter:
  fixes env d dry f s
  defines "s' \<equiv> process_file env d dry f s"
  shows "(renamed_count s', skipped_count s', error_count s') \<in>
     {(renamed_count s + 1, skipped_count s, error_count s),
      (renamed_count s, skipped_count s + 1, error_count s),
      (renamed_count s, skipped_count s, error_count s + 1),
      (renamed_count s, skipped_count s, error_count s)}"
  unfolding s'_def
  by (rule process_file_cases [where env = env and d = d and dry = dry and f = f and s = s])
     simp_all

lemma process_file_dry_run_no_rename:
  "renamed_count (process_file env d True f s) = renamed_count s"
  "count_lines is_renamed_line (printed (process_file env d True f s)) =
     count_lines is_renamed_line (printed s)"
  by (rule process_file_cases [where env = env and d = d and dry = True and f = f and s = s];
      simp add: get_file_creation_date_msgs; simp add: count_lines_def)+

lemma process_file_real_run_no_would:
  "count_lines is_would_rename_line (printed (process_file env d False f s)) =
     count_lines is_would_rename_line (printed s)"
  by (rule process_file_cases [where env = env and d = d and dry = False and f = f and s = s];
      simp add: get_file_creation_date_msgs; simp add: count_lines_def)

subsection \<open>The loop\<close>

lemma process_files_append:
  "process_files env d dry (xs @ ys) s = process_files env d dry ys (process_files env d dry xs s)"
  by (induction xs arbitrary: s) simp_all

lemma process_files_dry_run:
  "file_system (process_files env d True fs s) = file_system s"
  by (induction fs arbitrary: s) (simp_all add: process_file_dry_run)

lemma process_files_other_directory:
  "d' \<noteq> d \<Longrightarrow> file_system (process_files env d dry fs s) d' = file_system s d'"
  by (induction fs arbitrary: s) (simp_all add: process_file_other_directory)

lemma process_files_reports:
  "reported_files (printed (process_files env d dry fs s)) = reported_files (printed s) @ fs"
  by (induction fs arbitrary: s) (simp_all add: process_file_reports)

lemma process_files_counts:
  assumes "error_count s = count_lines is_error_line (printed s)"
    and "skipped_count s = count_lines is_skip_line (printed s)"
    and "renamed_count s = count_lines is_renamed_line (printed s)"
  shows "error_count (process_files env d dry fs s) =
           count_lines is_error_line (printed (process_files env d dry fs s)) \<and>
         skipped_count (process_files env d dry fs s) =
           count_lines is_skip_line (printed (process_files env d dry fs s)) \<and>
         renamed_count (process_files env d dry fs s) =
           count_lines is_renamed_line (printed (process_files env d dry fs s))"
  using assms
proof (induction fs arbitrary: s)
  case Nil
  then show ?case by simp
next
  case (Cons f fs)
  show ?case
    unfolding process_files.simps
    by (rule Cons.IH) (rule process_file_counts [OF Cons.prems])+
qed

lemma process_files_total:
  "renamed_count (process_files env d dry fs s) + skipped_count (process_files env d dry fs s) +
     error_count (process_files env d dry fs s) +
     count_lines is_would_rename_line (printed (process_files env d dry fs s)) =
   renamed_count s + skipped_count s + error_count s +
     count_lines is_would_rename_line (printed s) + length fs"
proof (induction fs arbitrary: s)
  case Nil
  then show ?case by simp
next
  case (Cons f fs)
  show ?case
    using Cons.IH [of "process_file env d dry f s"] process_file_total [of env d dry f s]
    by simp
qed

lemma process_files_dry_run_no_rename:
  "renamed_count (process_files env d True fs s) = renamed_count s"
  by (induction fs arbitrary: s) (simp_all add: process_file_dry_run_no_rename)

lemma process_files_real_run_no_would:
  "count_lines is_would_rename_line (printed (process_files env d False fs s)) =
     count_lines is_would_rename_line (printed s)"
  by (induction fs arbitrary: s) (simp_all add: process_file_real_run_no_would)

lemma process_files_not_media:
  assumes "\<not> is_media_file (snd p)" and "\<forall>f \<in> set fs. is_media_file f"
  shows "lookup (file_system (process_files env d dry fs s)) p = lookup (file_system s) p"
  using assms(2)
proof (induction fs arbitrary: s)
  case Nil
  then show ?case by simp
next
  case (Cons f fs)
  then have f: "is_media_file f" by simp
  have "lookup (file_system (process_file env d dry f s)) p = lookup (file_system s) p"
    using process_file_lookup [of env d dry f s p] assms(1) f new_name_is_media [OF f]
    by auto
  with Cons show ?case by simp
qed

lemma process_file_keeps_prefixed:
  assumes "already_has_date_prefix (snd p)" and "lookup (file_system s) p = Some e"
  shows "lookup (file_system (process_file env d dry f s)) p = Some e"
  using process_file_lookup [of env d dry f s p] assms by auto

lemma process_files_keeps_prefixed:
  assumes "already_has_date_prefix (snd p)" and "lookup (file_system s) p = Some e"
  shows "lookup (file_system (process_files env d dry fs s)) p = Some e"
  using assms(2)
  by (induction fs arbitrary: s) (simp_all add: process_file_keeps_prefixed [OF assms(1)])

lemma process_file_printed_grows:
  "\<exists>ms. printed (process_file env d dry f s) = printed s @ ms"
  by (rule process_file_cases [where env = env and d = d and dry = dry and f = f and s = s])
     simp_all

lemma process_files_printed_grows:
  "\<exists>ms. printed (process_files env d dry fs s) = printed s @ ms"
proof (induction fs arbitrary: s)
  case Nil
  then show ?case by simp
next
  case (Cons f fs)
  from process_file_printed_grows [of env d dry f s] obtain ms1
    where 1: "printed (process_file env d dry f s) = printed s @ ms1" by blast
  from Cons [of "process_file env d dry f s"] obtain ms2
    where "printed (process_files env d dry fs (process_file env d dry f s)) =
      printed (process_file env d dry f s) @ ms2" by blast
  with 1 show ?case by simp
qed

subsection \<open>The effective date\<close>





subsection \<open>A whole run\<close>

lemma list_media_files_not_dir:
  "\<not> os_path_isdir fsys d \<Longrightarrow> list_media_files fsys d = []"
  by (simp add: list_media_files_def list_files_def os_listdir_def os_path_isdir_def)

lemma rename_media_files_cases [case_names not_dir no_files no_media run]:
  fixes env fsys d dry
  defines "r \<equiv> rename_media_files env fsys d dry"
  obtains
    "\<not> os_path_isdir fsys d"
    "r = \<lparr>files_after = fsys, lines_printed = [DirectoryDoesNotExist d], summary = None\<rparr>"
  | "os_path_isdir fsys d" "list_files fsys d = []"
    "r = \<lparr>files_after = fsys, lines_printed = [NoFilesFound], summary = None\<rparr>"
  | "os_path_isdir fsys d" "list_files fsys d \<noteq> []" "list_media_files fsys d = []"
    "r = \<lparr>files_after = fsys, lines_printed = [NoMediaFilesFound], summary = None\<rparr>"
  | s where "os_path_isdir fsys d" "list_media_files fsys d \<noteq> []"
    "s = run_loop env fsys d dry (list_media_files fsys d)"
    "r = \<lparr>files_after = file_system s,
          lines_printed = printed s @
            [SummaryHeader dry, TotalMediaFiles (length (list_media_files fsys d))] @
            (if \<not> dry then [SuccessfullyRenamed (renamed_count s)] else []) @
            [SkippedAlreadyHasDate (skipped_count s), Errors (error_count s)],
          summary = Some \<lparr>total_media_files = length (list_media_files fsys d),
            renamed = renamed_count s, skipped = skipped_count s,
            errors = error_count s\<rparr>\<rparr>"
proof (cases "os_path_isdir fsys d")
  case False
  then show ?thesis using that(1) by (simp add: r_def rename_media_files_def)
next
  case dir: True
  show ?thesis
  proof (cases "list_files fsys d = []")
    case True
    then show ?thesis using that(2) dir by (simp add: r_def rename_media_files_def)
  next
    case files: False
    show ?thesis
    proof (cases "list_media_files fsys d = []")
      case True
      then show ?thesis
        using that(3) dir files
        by (simp add: r_def rename_media_files_def list_media_files_def)
    next
      case False
      then show ?thesis
        using that(4) [of "run_loop env fsys d dry (list_media_files fsys d)"] dir files
        by (simp add: r_def rename_media_files_def list_media_files_def Let_def)
    qed
  qed
qed

text \<open>
  Claim C2. A dry run never changes the file system: for every environment, file system
  and directory path, the file system after \<open>rename_media_files\<close> with \<open>dry_run\<close> true is
  the file system before it.
\<close>

theorem dry_run_never_mutates:
  "files_after (rename_media_files env fsys d True) = fsys"
  by (rule rename_media_files_cases [where env = env and fsys = fsys and d = d and dry = True])
     (simp_all add: run_loop_def loop_start_def process_files_dry_run)

text \<open>
  Claim C5. If the path is not a directory, \<open>rename_media_files\<close> reports that the
  directory does not exist and returns at once: that line is all it prints, no file is
  listed, counted or renamed, and the file system is unchanged.
\<close>

theorem not_a_directory_aborts:
  "\<not> os_path_isdir fsys d \<Longrightarrow>
     rename_media_files env fsys d dry =
       \<lparr>files_after = fsys, lines_printed = [DirectoryDoesNotExist d], summary = None\<rparr>"
  by (simp add: rename_media_files_def)

theorem not_a_directory_aborts_witness:
  "\<not> os_path_isdir vacation_fs ''videos'' \<and>
   rename_media_files utc_env vacation_fs ''videos'' False =
     \<lparr>files_after = vacation_fs, lines_printed = [DirectoryDoesNotExist ''videos''],
      summary = None\<rparr>"
proof -
  have h: "\<not> os_path_isdir vacation_fs ''videos''" by code_simp
  from not_a_directory_aborts [OF h] h show ?thesis by blast
qed

text \<open>
  Claim C6, as stated: with no media file in the directory the run returns a summary
  whose counts are all zero. The program returns before the counters exist and prints no
  summary block: in the directory that holds \<open>notes.txt\<close> only, the one line printed is
  the informational message, and there is no summary.
\<close>

theorem no_media_files_counterexample:
  "os_path_isdir notes_fs ''photos'' \<and> list_media_files notes_fs ''photos'' = [] \<and>
   summary (rename_media_files utc_env notes_fs ''photos'' True) \<noteq>
     Some \<lparr>total_media_files = 0, renamed = 0, skipped = 0, errors = 0\<rparr> \<and>
   lines_printed (rename_media_files utc_env notes_fs ''photos'' True) = [NoMediaFilesFound]"
  by code_simp

text \<open>
  Claim C6, amended. If the directory contains no media file, \<open>rename_media_files\<close>
  prints one informational line (that no files were found when the directory has no
  regular file at all, that no media files were found otherwise), prints no summary and
  counts nothing, and leaves the file system as it was.
\<close>

theorem no_media_files_message_only:
  "os_path_isdir fsys d \<Longrightarrow> list_media_files fsys d = [] \<Longrightarrow>
     rename_media_files env fsys d dry =
       \<lparr>files_after = fsys,
        lines_printed = [if list_files fsys d = [] then NoFilesFound else NoMediaFilesFound],
        summary = None\<rparr>"
  by (rule rename_media_files_cases [where env = env and fsys = fsys and d = d and dry = dry])
     simp_all

theorem no_media_files_message_only_witness:
  "os_path_isdir notes_fs ''photos'' \<and> list_media_files notes_fs ''photos'' = [] \<and>
   rename_media_files utc_env notes_fs ''photos'' False =
     \<lparr>files_after = notes_fs,
      lines_printed =
        [if list_files notes_fs ''photos'' = [] then NoFilesFound else NoMediaFilesFound],
      summary = None\<rparr> \<and>
   list_files notes_fs ''photos'' = [''notes.txt'']"
proof -
  have h1: "os_path_isdir notes_fs ''photos''" by code_simp
  have h2: "list_media_files notes_fs ''photos'' = []" by code_simp
  have h3: "list_files notes_fs ''photos'' = [''notes.txt'']" by code_simp
  from no_media_files_message_only [OF h1 h2] h1 h2 h3 show ?thesis by blast
qed

lemma list_media_files_are_media: "\<forall>f \<in> set (list_media_files fsys d). is_media_file f"
  by (simp add: list_media_files_def)

lemma run_loop_reports:
  "reported_files (printed (run_loop env fsys d dry fs)) = fs"
  by (simp add: run_loop_def loop_start_def process_files_reports) (simp add: reported_files_def)

lemma rename_media_files_reports:
  "reported_files (lines_printed (rename_media_files env fsys d dry)) = list_media_files fsys d"
proof (rule rename_media_files_cases [where env = env and fsys = fsys and d = d and dry = dry])
  fix s
  assume "s = run_loop env fsys d dry (list_media_files fsys d)"
    and "rename_media_files env fsys d dry =
      \<lparr>files_after = file_system s,
       lines_printed = printed s @
         [SummaryHeader dry, TotalMediaFiles (length (list_media_files fsys d))] @
         (if \<not> dry then [SuccessfullyRenamed (renamed_count s)] else []) @
         [SkippedAlreadyHasDate (skipped_count s), Errors (error_count s)],
       summary = Some \<lparr>total_media_files = length (list_media_files fsys d),
         renamed = renamed_count s, skipped = skipped_count s, errors = error_count s\<rparr>\<rparr>"
  then show ?thesis
    by (simp add: run_loop_reports) (simp add: reported_files_def)
qed (simp_all add: list_media_files_not_dir reported_files_def, simp add: list_media_files_def)

lemma rename_media_files_lookup_not_media:
  assumes "\<not> is_media_file name"
  shows "lookup (files_after (rename_media_files env fsys d dry)) (d', name) = lookup fsys (d', name)"
  by (rule rename_media_files_cases [where env = env and fsys = fsys and d = d and dry = dry])
     (simp_all add: run_loop_def loop_start_def process_files_not_media assms list_media_files_are_media)

text \<open>
  Claim C8. A file whose extension is not in the catalog is never touched, in a dry run
  or a real one: the media filter leaves it out of the list the loop works on, no
  per-file line is printed about it, and the entry under its name (in any directory) is
  after the run what it was before.
\<close>

theorem non_media_files_untouched:
  "\<not> is_media_file name \<Longrightarrow>
     lookup (files_after (rename_media_files env fsys d dry)) (d', name) = lookup fsys (d', name) \<and>
     name \<notin> set (list_media_files fsys d) \<and>
     name \<notin> set (reported_files (lines_printed (rename_media_files env fsys d dry)))"
  using list_media_files_are_media [of fsys d]
  by (auto simp: rename_media_files_lookup_not_media rename_media_files_reports)

theorem non_media_files_untouched_witness:
  "\<not> is_media_file ''notes.txt'' \<and>
   lookup (files_after (rename_media_files utc_env vacation_fs ''photos'' False))
     (''photos'', ''notes.txt'') = lookup vacation_fs (''photos'', ''notes.txt'') \<and>
   ''notes.txt'' \<notin> set (list_media_files vacation_fs ''photos'') \<and>
   ''notes.txt'' \<notin> set (reported_files
      (lines_printed (rename_media_files utc_env vacation_fs ''photos'' False))) \<and>
   lookup vacation_fs (''photos'', ''notes.txt'') = Some (regular_file 1641000000 1641000000) \<and>
   lookup (files_after (rename_media_files utc_env vacation_fs ''photos'' False))
     (''photos'', ''vacation.jpg'') = None"
proof -
  have h: "\<not> is_media_file ''notes.txt''" by code_simp
  have e: "lookup vacation_fs (''photos'', ''notes.txt'') =
      Some (regular_file 1641000000 1641000000)" by code_simp
  have g: "lookup (files_after (rename_media_files utc_env vacation_fs ''photos'' False))
     (''photos'', ''vacation.jpg'') = None" by code_simp
  from non_media_files_untouched [OF h, of utc_env vacation_fs "''photos''" False "''photos''"]
    h e g show ?thesis by blast
qed

lemma run_loop_total:
  "renamed_count (run_loop env fsys d dry fs) + skipped_count (run_loop env fsys d dry fs) +
     error_count (run_loop env fsys d dry fs) +
     count_lines is_would_rename_line (printed (run_loop env fsys d dry fs)) = length fs"
  unfolding run_loop_def loop_start_def
  by (simp add: process_files_total) (simp add: count_lines_def)

lemma run_loop_real_run_no_would:
  "count_lines is_would_rename_line (printed (run_loop env fsys d False fs)) = 0"
  unfolding run_loop_def loop_start_def
  by (simp add: process_files_real_run_no_would) (simp add: count_lines_def)

lemma run_loop_dry_run_no_rename:
  "renamed_count (run_loop env fsys d True fs) = 0"
  unfolding run_loop_def loop_start_def by (simp add: process_files_dry_run_no_rename)

lemma summary_real_run:
  assumes "summary (rename_media_files env fsys d False) = Some sm"
  shows "renamed sm + skipped sm + errors sm = total_media_files sm"
proof (rule rename_media_files_cases [where env = env and fsys = fsys and d = d and dry = False])
  fix s
  assume s: "s = run_loop env fsys d False (list_media_files fsys d)"
    and r: "rename_media_files env fsys d False =
      \<lparr>files_after = file_system s,
       lines_printed = printed s @
         [SummaryHeader False, TotalMediaFiles (length (list_media_files fsys d))] @
         (if \<not> False then [SuccessfullyRenamed (renamed_count s)] else []) @
         [SkippedAlreadyHasDate (skipped_count s), Errors (error_count s)],
       summary = Some \<lparr>total_media_files = length (list_media_files fsys d),
         renamed = renamed_count s, skipped = skipped_count s, errors = error_count s\<rparr>\<rparr>"
  from assms r have sm: "sm = \<lparr>total_media_files = length (list_media_files fsys d),
         renamed = renamed_count s, skipped = skipped_count s, errors = error_count s\<rparr>"
    by simp
  show ?thesis
    using run_loop_total [of env fsys d False "list_media_files fsys d"]
      run_loop_real_run_no_would [of env fsys d "list_media_files fsys d"]
    by (simp add: sm s)
qed (use assms in simp_all)

lemma summary_dry_run:
  assumes "summary (rename_media_files env fsys d True) = Some sm"
  shows "renamed sm = 0 \<and>
     renamed sm + skipped sm + errors sm +
       count_lines is_would_rename_line (lines_printed (rename_media_files env fsys d True)) =
     total_media_files sm"
proof (rule rename_media_files_cases [where env = env and fsys = fsys and d = d and dry = True])
  fix s
  assume s: "s = run_loop env fsys d True (list_media_files fsys d)"
    and r: "rename_media_files env fsys d True =
      \<lparr>files_after = file_system s,
       lines_printed = printed s @
         [SummaryHeader True, TotalMediaFiles (length (list_media_files fsys d))] @
         (if \<not> True then [SuccessfullyRenamed (renamed_count s)] else []) @
         [SkippedAlreadyHasDate (skipped_count s), Errors (error_count s)],
       summary = Some \<lparr>total_media_files = length (list_media_files fsys d),
         renamed = renamed_count s, skipped = skipped_count s, errors = error_count s\<rparr>\<rparr>"
  from assms r have sm: "sm = \<lparr>total_media_files = length (list_media_files fsys d),
         renamed = renamed_count s, skipped = skipped_count s, errors = error_count s\<rparr>"
    by simp
  have w: "count_lines is_would_rename_line (lines_printed (rename_media_files env fsys d True)) =
      count_lines is_would_rename_line (printed s)"
    unfolding r by (simp add: count_lines_def)
  show ?thesis
    using run_loop_total [of env fsys d True "list_media_files fsys d"]
      run_loop_dry_run_no_rename [of env fsys d "list_media_files fsys d"]
    by (simp add: sm s w)
qed (use assms in simp_all)

lemma process_file_real_run_one_counter:
  fixes env d f s
  defines "s' \<equiv> process_file env d False f s"
  shows "(renamed_count s', skipped_count s', error_count s') \<in>
     {(renamed_count s + 1, skipped_count s, error_count s),
      (renamed_count s, skipped_count s + 1, error_count s),
      (renamed_count s, skipped_count s, error_count s + 1)}"
  unfolding s'_def
  by (rule process_file_cases [where env = env and d = d and dry = False and f = f and s = s])
     simp_all

lemma process_file_would_rename_iff:
  fixes env d dry f s
  defines "s' \<equiv> process_file env d dry f s"
  shows "count_lines is_would_rename_line (printed s') =
           count_lines is_would_rename_line (printed s) + 1 \<longleftrightarrow>
         (renamed_count s', skipped_count s', error_count s') =
           (renamed_count s, skipped_count s, error_count s)"
  using process_file_total [of env d dry f s] process_file_one_counter [of env d dry f s]
  unfolding s'_def by auto

lemma dry_run_example:
  "summary (rename_media_files utc_env vacation_fs ''photos'' True) =
     Some \<lparr>total_media_files = 2, renamed = 0, skipped = 1, errors = 0\<rparr>"
  by code_simp

text \<open>
  Claim C10. One pass of the loop body adds one to at most one of the three counters and
  leaves the others alone; in a real run it adds one to exactly one of them, so at the
  end \<open>renamed + skipped + errors\<close> is the number of media files. In a dry run the pass
  that prints a \<open>WOULD RENAME\<close> line is the one that changes no counter: \<open>renamed\<close> stays
  zero, the three counters and the number of \<open>WOULD RENAME\<close> lines add up to the number
  of media files, and there are runs where the three counters add up to strictly less.
\<close>

theorem counters_partition_the_media_files:
  "(renamed_count (process_file env d dry f s), skipped_count (process_file env d dry f s),
      error_count (process_file env d dry f s)) \<in>
     {(renamed_count s + 1, skipped_count s, error_count s),
      (renamed_count s, skipped_count s + 1, error_count s),
      (renamed_count s, skipped_count s, error_count s + 1),
      (renamed_count s, skipped_count s, error_count s)} \<and>
   (renamed_count (process_file env d False f s), skipped_count (process_file env d False f s),
      error_count (process_file env d False f s)) \<in>
     {(renamed_count s + 1, skipped_count s, error_count s),
      (renamed_count s, skipped_count s + 1, error_count s),
      (renamed_count s, skipped_count s, error_count s + 1)} \<and>
   (count_lines is_would_rename_line (printed (process_file env d True f s)) =
        count_lines is_would_rename_line (printed s) + 1 \<longleftrightarrow>
      (renamed_count (process_file env d True f s), skipped_count (process_file env d True f s),
         error_count (process_file env d True f s)) =
        (renamed_count s, skipped_count s, error_count s)) \<and>
   (\<forall>sm. summary (rename_media_files env fsys d False) = Some sm \<longrightarrow>
      renamed sm + skipped sm + errors sm = total_media_files sm) \<and>
   (\<forall>sm. summary (rename_media_files env fsys d True) = Some sm \<longrightarrow>
      renamed sm = 0 \<and>
      renamed sm + skipped sm + errors sm +
        count_lines is_would_rename_line (lines_printed (rename_media_files env fsys d True)) =
      total_media_files sm) \<and>
   (\<exists>env' fsys' d' sm. summary (rename_media_files env' fsys' d' True) = Some sm \<and>
      renamed sm + skipped sm + errors sm < total_media_files sm)"
proof -
  have "\<exists>env' fsys' d' sm. summary (rename_media_files env' fsys' d' True) = Some sm \<and>
      renamed sm + skipped sm + errors sm < total_media_files sm"
  proof (intro exI conjI)
    show "summary (rename_media_files utc_env vacation_fs ''photos'' True) =
      Some \<lparr>total_media_files = 2, renamed = 0, skipped = 1, errors = 0\<rparr>"
      by (rule dry_run_example)
    show "renamed \<lparr>total_media_files = 2, renamed = 0, skipped = 1, errors = 0\<rparr> +
      skipped \<lparr>total_media_files = 2, renamed = 0, skipped = 1, errors = 0\<rparr> +
      errors \<lparr>total_media_files = 2, renamed = 0, skipped = 1, errors = 0\<rparr> <
      total_media_files \<lparr>total_media_files = 2, renamed = 0, skipped = 1, errors = 0\<rparr>"
      by simp
  qed
  then show ?thesis
    using process_file_one_counter [of env d dry f s]
      process_file_real_run_one_counter [of env d f s]
      process_file_would_rename_iff [of env d True f s]
      summary_real_run [of env fsys d] summary_dry_run [of env fsys d]
    by blast
qed

theorem counters_partition_the_media_files_witness:
  "(\<exists>sm. summary (rename_media_files utc_env vacation_fs ''photos'' False) = Some sm \<and>
      renamed sm + skipped sm + errors sm = total_media_files sm \<and>
      total_media_files sm = 2) \<and>
   (\<exists>sm. summary (rename_media_files utc_env vacation_fs ''photos'' True) = Some sm \<and>
      renamed sm = 0 \<and>
      renamed sm + skipped sm + errors sm +
        count_lines is_would_rename_line
          (lines_printed (rename_media_files utc_env vacation_fs ''photos'' True)) =
      total_media_files sm \<and>
      renamed sm + skipped sm + errors sm < total_media_files sm)"
proof -
  have real: "summary (rename_media_files utc_env vacation_fs ''photos'' False) =
      Some \<lparr>total_media_files = 2, renamed = 1, skipped = 1, errors = 0\<rparr>"
    by code_simp
  have dry: "summary (rename_media_files utc_env vacation_fs ''photos'' True) =
      Some \<lparr>total_media_files = 2, renamed = 0, skipped = 1, errors = 0\<rparr>"
    by code_simp
  note inst = counters_partition_the_media_files
    [of utc_env "''photos''" False "''vacation.jpg''" undefined vacation_fs]
  from inst real have
    "renamed \<lparr>total_media_files = 2, renamed = 1, skipped = 1, errors = 0\<rparr> +
     skipped \<lparr>total_media_files = 2, renamed = 1, skipped = 1, errors = 0\<rparr> +
     errors \<lparr>total_media_files = 2, renamed = 1, skipped = 1, errors = 0\<rparr> =
     total_media_files \<lparr>total_media_files = 2, renamed = 1, skipped = 1, errors = 0\<rparr>"
    by blast
  with real have 1: "\<exists>sm. summary (rename_media_files utc_env vacation_fs ''photos'' False) = Some sm \<and>
      renamed sm + skipped sm + errors sm = total_media_files sm \<and>
      total_media_files sm = 2"
    by simp
  from inst dry have
    "renamed \<lparr>total_media_files = 2, renamed = 0, skipped = 1, errors = 0\<rparr> = 0 \<and>
     renamed \<lparr>total_media_files = 2, renamed = 0, skipped = 1, errors = 0\<rparr> +
     skipped \<lparr>total_media_files = 2, renamed = 0, skipped = 1, errors = 0\<rparr> +
     errors \<lparr>total_media_files = 2, renamed = 0, skipped = 1, errors = 0\<rparr> +
       count_lines is_would_rename_line
         (lines_printed (rename_media_files utc_env vacation_fs ''photos'' True)) =
     total_media_files \<lparr>total_media_files = 2, renamed = 0, skipped = 1, errors = 0\<rparr>"
    by blast
  with dry have 2: "\<exists>sm. summary (rename_media_files utc_env vacation_fs ''photos'' True) = Some sm \<and>
      renamed sm = 0 \<and>
      renamed sm + skipped sm + errors sm +
        count_lines is_would_rename_line
          (lines_printed (rename_media_files utc_env vacation_fs ''photos'' True)) =
      total_media_files sm \<and>
      renamed sm + skipped sm + errors sm < total_media_files sm"
    by simp
  from 1 2 show ?thesis by blast
qed

subsection \<open>Failures of single files\<close>


lemma process_file_skip:
  "already_has_date_prefix f \<Longrightarrow>
     process_file env d dry f s =
       s\<lparr>printed := printed s @ [SKIP f], skipped_count := skipped_count s + 1\<rparr>"
  by (simp add: process_file_def)

lemma process_file_no_date:
  "\<not> already_has_date_prefix f \<Longrightarrow>
   snd (get_file_creation_date env (file_system s) (d, f)) = None \<Longrightarrow>
     process_file env d dry f s =
       s\<lparr>printed := printed s @ fst (get_file_creation_date env (file_system s) (d, f)) @
            [CouldNotGetDate f],
         error_count := error_count s + 1\<rparr>"
  by (cases "get_file_creation_date env (file_system s) (d, f)")
     (simp add: process_file_def os_path_join_def)

lemma process_file_collision:
  "\<not> already_has_date_prefix f \<Longrightarrow>
   snd (get_file_creation_date env (file_system s) (d, f)) = Some dt \<Longrightarrow>
   os_path_exists (file_system s) (d, new_name dt f) \<Longrightarrow>
     process_file env d dry f s =
       s\<lparr>printed := printed s @ fst (get_file_creation_date env (file_system s) (d, f)) @
            [AlreadyExists (new_name dt f) f],
         error_count := error_count s + 1\<rparr>"
  by (cases "get_file_creation_date env (file_system s) (d, f)")
     (simp add: process_file_def os_path_join_def new_name_def)

lemma process_file_rename_failed:
  "\<not> already_has_date_prefix f \<Longrightarrow>
   snd (get_file_creation_date env (file_system s) (d, f)) = Some dt \<Longrightarrow>
   \<not> os_path_exists (file_system s) (d, new_name dt f) \<Longrightarrow>
   os_rename env (file_system s) (d, f) (d, new_name dt f) = Inl e \<Longrightarrow>
     process_file env d False f s =
       s\<lparr>printed := printed s @ fst (get_file_creation_date env (file_system s) (d, f)) @
            [FailedToRename f e],
         error_count := error_count s + 1\<rparr>"
  by (cases "get_file_creation_date env (file_system s) (d, f)")
     (simp add: process_file_def os_path_join_def new_name_def)

lemma run_loop_counts:
  "error_count (run_loop env fsys d dry fs) =
     count_lines is_error_line (printed (run_loop env fsys d dry fs)) \<and>
   skipped_count (run_loop env fsys d dry fs) =
     count_lines is_skip_line (printed (run_loop env fsys d dry fs)) \<and>
   renamed_count (run_loop env fsys d dry fs) =
     count_lines is_renamed_line (printed (run_loop env fsys d dry fs))"
  unfolding run_loop_def
  by (rule process_files_counts) (simp_all add: loop_start_def count_lines_def)

lemma run_completes:
  assumes "os_path_isdir fsys d" and "list_media_files fsys d \<noteq> []"
  shows "\<exists>sm. summary (rename_media_files env fsys d dry) = Some sm \<and>
     total_media_files sm = length (list_media_files fsys d) \<and>
     errors sm = count_lines is_error_line (lines_printed (rename_media_files env fsys d dry))"
proof (rule rename_media_files_cases [where env = env and fsys = fsys and d = d and dry = dry])
  fix s
  assume s: "s = run_loop env fsys d dry (list_media_files fsys d)"
    and r: "rename_media_files env fsys d dry =
      \<lparr>files_after = file_system s,
       lines_printed = printed s @
         [SummaryHeader dry, TotalMediaFiles (length (list_media_files fsys d))] @
         (if \<not> dry then [SuccessfullyRenamed (renamed_count s)] else []) @
         [SkippedAlreadyHasDate (skipped_count s), Errors (error_count s)],
       summary = Some \<lparr>total_media_files = length (list_media_files fsys d),
         renamed = renamed_count s, skipped = skipped_count s, errors = error_count s\<rparr>\<rparr>"
  have "count_lines is_error_line (lines_printed (rename_media_files env fsys d dry)) =
      count_lines is_error_line (printed s)"
    unfolding r by (simp add: count_lines_def)
  then show ?thesis
    using run_loop_counts [of env fsys d dry "list_media_files fsys d"] by (simp add: r s)
qed (use assms in \<open>simp_all add: list_media_files_def\<close>)

text \<open>
  Claim C7. A failure on one file does not end the run. Every media file gets its line, in
  the order of the listing, and a run on a directory with media files reaches the summary,
  whose error count is the number of error lines printed. The loop goes on with the files
  after \<open>f\<close> from the state the body leaves for \<open>f\<close>. In each of the three failures of
  the body (no date could be read, the new name exists, \<open>os.rename\<close> raised) the state
  changes by the printed lines and one more error, and in nothing else.
\<close>

theorem per_file_errors_never_abort:
  "reported_files (lines_printed (rename_media_files env fsys d dry)) = list_media_files fsys d \<and>
   (os_path_isdir fsys d \<and> list_media_files fsys d \<noteq> [] \<longrightarrow>
      (\<exists>sm. summary (rename_media_files env fsys d dry) = Some sm \<and>
         total_media_files sm = length (list_media_files fsys d) \<and>
         errors sm =
           count_lines is_error_line (lines_printed (rename_media_files env fsys d dry)))) \<and>
   process_files env d dry (before @ f # after) s =
     process_files env d dry after (process_file env d dry f (process_files env d dry before s)) \<and>
   (\<not> already_has_date_prefix f \<and>
    snd (get_file_creation_date env (file_system s) (d, f)) = None \<longrightarrow>
      process_file env d dry f s =
        s\<lparr>printed := printed s @ fst (get_file_creation_date env (file_system s) (d, f)) @
             [CouldNotGetDate f],
          error_count := error_count s + 1\<rparr>) \<and>
   (\<not> already_has_date_prefix f \<and>
    snd (get_file_creation_date env (file_system s) (d, f)) = Some dt \<and>
    os_path_exists (file_system s) (d, new_name dt f) \<longrightarrow>
      process_file env d dry f s =
        s\<lparr>printed := printed s @ fst (get_file_creation_date env (file_system s) (d, f)) @
             [AlreadyExists (new_name dt f) f],
          error_count := error_count s + 1\<rparr>) \<and>
   (\<not> already_has_date_prefix f \<and>
    snd (get_file_creation_date env (file_system s) (d, f)) = Some dt \<and>
    \<not> os_path_exists (file_system s) (d, new_name dt f) \<and>
    os_rename env (file_system s) (d, f) (d, new_name dt f) = Inl e \<longrightarrow>
      process_file env d False f s =
        s\<lparr>printed := printed s @ fst (get_file_creation_date env (file_system s) (d, f)) @
             [FailedToRename f e],
          error_count := error_count s + 1\<rparr>)"
  using rename_media_files_reports [of env fsys d dry] run_completes [of fsys d env dry]
    process_files_append [of env d dry before "f # after" s]
    process_file_no_date [of f env s d dry] process_file_collision [of f env s d dt dry]
    process_file_rename_failed [of f env s d dt e]
  by (simp only: process_files.simps) blast


theorem per_file_errors_never_abort_witness:
  "(os_path_isdir collision_fs ''photos'' \<and> list_media_files collision_fs ''photos'' \<noteq> []) \<and>
   (\<exists>sm. summary (rename_media_files faulty_env collision_fs ''photos'' False) = Some sm \<and>
      total_media_files sm = 5 \<and> errors sm = 3 \<and> renamed sm = 1 \<and>
      errors sm =
        count_lines is_error_line
          (lines_printed (rename_media_files faulty_env collision_fs ''photos'' False))) \<and>
   (\<not> already_has_date_prefix ''b.jpg'' \<and>
    snd (get_file_creation_date faulty_env
      (file_system (loop_start collision_fs False (list_media_files collision_fs ''photos'')))
      (''photos'', ''b.jpg'')) = None) \<and>
   error_count (process_file faulty_env ''photos'' False ''b.jpg''
     (loop_start collision_fs False (list_media_files collision_fs ''photos''))) = 1 \<and>
   (\<not> already_has_date_prefix ''a.png'' \<and>
    snd (get_file_creation_date faulty_env
      (file_system (loop_start collision_fs False (list_media_files collision_fs ''photos'')))
      (''photos'', ''a.png'')) =
      Some \<lparr>year = 2024, month = 5, day = 1, hour = 0, minute = 0, second = 0\<rparr> \<and>
    os_path_exists
      (file_system (loop_start collision_fs False (list_media_files collision_fs ''photos'')))
      (''photos'',
       new_name \<lparr>year = 2024, month = 5, day = 1, hour = 0, minute = 0, second = 0\<rparr>
         ''a.png'')) \<and>
   error_count (process_file faulty_env ''photos'' False ''a.png''
     (loop_start collision_fs False (list_media_files collision_fs ''photos''))) = 1 \<and>
   (\<not> already_has_date_prefix ''c.jpg'' \<and>
    snd (get_file_creation_date faulty_env
      (file_system (loop_start collision_fs False (list_media_files collision_fs ''photos'')))
      (''photos'', ''c.jpg'')) =
      Some \<lparr>year = 2024, month = 5, day = 1, hour = 0, minute = 0, second = 0\<rparr> \<and>
    \<not> os_path_exists
      (file_system (loop_start collision_fs False (list_media_files collision_fs ''photos'')))
      (''photos'',
       new_name \<lparr>year = 2024, month = 5, day = 1, hour = 0, minute = 0, second = 0\<rparr>
         ''c.jpg'') \<and>
    os_rename faulty_env
      (file_system (loop_start collision_fs False (list_media_files collision_fs ''photos'')))
      (''photos'', ''c.jpg'')
      (''photos'',
       new_name \<lparr>year = 2024, month = 5, day = 1, hour = 0, minute = 0, second = 0\<rparr>
         ''c.jpg'') = Inl PermissionError) \<and>
   error_count (process_file faulty_env ''photos'' False ''c.jpg''
     (loop_start collision_fs False (list_media_files collision_fs ''photos''))) = 1"
proof -
  let ?s = "loop_start collision_fs False (list_media_files collision_fs ''photos'')"
  let ?dt = "\<lparr>year = 2024, month = 5, day = 1, hour = 0, minute = 0, second = 0\<rparr>"
  have dir: "os_path_isdir collision_fs ''photos'' \<and> list_media_files collision_fs ''photos'' \<noteq> []"
    by code_simp
  have len: "length (list_media_files collision_fs ''photos'') = 5"
    by code_simp
  have real: "summary (rename_media_files faulty_env collision_fs ''photos'' False) =
      Some \<lparr>total_media_files = 5, renamed = 1, skipped = 1, errors = 3\<rparr>"
    by code_simp
  have b: "\<not> already_has_date_prefix ''b.jpg'' \<and>
      snd (get_file_creation_date faulty_env (file_system ?s) (''photos'', ''b.jpg'')) = None"
    by code_simp
  have a: "\<not> already_has_date_prefix ''a.png'' \<and>
      snd (get_file_creation_date faulty_env (file_system ?s) (''photos'', ''a.png'')) = Some ?dt \<and>
      os_path_exists (file_system ?s) (''photos'', new_name ?dt ''a.png'')"
    by code_simp
  have c1: "\<not> already_has_date_prefix ''c.jpg'' \<and>
      snd (get_file_creation_date faulty_env (file_system ?s) (''photos'', ''c.jpg'')) = Some ?dt \<and>
      \<not> os_path_exists (file_system ?s) (''photos'', new_name ?dt ''c.jpg'')"
    by code_simp
  have c2: "os_rename faulty_env (file_system ?s) (''photos'', ''c.jpg'')
        (''photos'', new_name ?dt ''c.jpg'') = Inl PermissionError"
    by (simp add: os_rename_def faulty_env_def)
  from c1 c2 have c: "\<not> already_has_date_prefix ''c.jpg'' \<and>
      snd (get_file_creation_date faulty_env (file_system ?s) (''photos'', ''c.jpg'')) = Some ?dt \<and>
      \<not> os_path_exists (file_system ?s) (''photos'', new_name ?dt ''c.jpg'') \<and>
      os_rename faulty_env (file_system ?s) (''photos'', ''c.jpg'')
        (''photos'', new_name ?dt ''c.jpg'') = Inl PermissionError"
    by blast
  have zero: "error_count ?s = 0"
    by (simp add: loop_start_def)
  from per_file_errors_never_abort
    [of faulty_env collision_fs "''photos''" False "[]" "''b.jpg''" "[]" ?s ?dt PermissionError]
    dir real len
  have 1: "\<exists>sm. summary (rename_media_files faulty_env collision_fs ''photos'' False) = Some sm \<and>
      total_media_files sm = 5 \<and> errors sm = 3 \<and> renamed sm = 1 \<and>
      errors sm =
        count_lines is_error_line
          (lines_printed (rename_media_files faulty_env collision_fs ''photos'' False))"
    by auto
  from per_file_errors_never_abort
    [of faulty_env collision_fs "''photos''" False "[]" "''b.jpg''" "[]" ?s ?dt PermissionError] b
  have "process_file faulty_env ''photos'' False ''b.jpg'' ?s =
      ?s\<lparr>printed := printed ?s @
          fst (get_file_creation_date faulty_env (file_system ?s) (''photos'', ''b.jpg'')) @
          [CouldNotGetDate ''b.jpg''],
        error_count := error_count ?s + 1\<rparr>"
    by blast
  then have 2: "error_count (process_file faulty_env ''photos'' False ''b.jpg'' ?s) = 1"
    using zero by simp
  from per_file_errors_never_abort
    [of faulty_env collision_fs "''photos''" False "[]" "''a.png''" "[]" ?s ?dt PermissionError] a
  have "process_file faulty_env ''photos'' False ''a.png'' ?s =
      ?s\<lparr>printed := printed ?s @
          fst (get_file_creation_date faulty_env (file_system ?s) (''photos'', ''a.png'')) @
          [AlreadyExists (new_name ?dt ''a.png'') ''a.png''],
        error_count := error_count ?s + 1\<rparr>"
    by blast
  then have 3: "error_count (process_file faulty_env ''photos'' False ''a.png'' ?s) = 1"
    using zero by simp
  from per_file_errors_never_abort
    [of faulty_env collision_fs "''photos''" False "[]" "''c.jpg''" "[]" ?s ?dt PermissionError] c
  have "process_file faulty_env ''photos'' False ''c.jpg'' ?s =
      ?s\<lparr>printed := printed ?s @
          fst (get_file_creation_date faulty_env (file_system ?s) (''photos'', ''c.jpg'')) @
          [FailedToRename ''c.jpg'' PermissionError],
        error_count := error_count ?s + 1\<rparr>"
    by blast
  then have 4: "error_count (process_file faulty_env ''photos'' False ''c.jpg'' ?s) = 1"
    using zero by simp
  from dir 1 b 2 a 3 c 4 show ?thesis
    by blast
qed

end
